theory Spec2Isabelle
  imports Complex_Main
begin

section \<open>The loan management program\<close>

text \<open>
  A shallow embedding of \<^verbatim>\<open>project.py\<close>: the three tables the program creates, the
  statements it sends to the store, and the functions \<^verbatim>\<open>register\<close>, \<^verbatim>\<open>login\<close>,
  \<^verbatim>\<open>apply_for_loan\<close>, \<^verbatim>\<open>make_payment\<close>, \<^verbatim>\<open>review_pending_loans\<close>,
  \<^verbatim>\<open>show_user_menu\<close> and \<^verbatim>\<open>main\<close>.

  Conventions of the embedding.
  \<^item> What \<^verbatim>\<open>input\<close> returns is a parameter. For a number the parameter is the result of
    \<^verbatim>\<open>int(...)\<close> or \<^verbatim>\<open>float(...)\<close>: \<open>None\<close> where the conversion raises \<^verbatim>\<open>ValueError\<close>,
    which the callers catch. \<^verbatim>\<open>float\<close> also accepts \<^verbatim>\<open>nan\<close> and \<^verbatim>\<open>inf\<close>.
  \<^item> A Python float is its exact value, or infinite, or not a number. Every rational
    stands for a float, and arithmetic on finite floats is exact: binary rounding is not
    modelled, and the decimal text in which the driver sends a float is taken for the
    float's value. A column of type \<^verbatim>\<open>DECIMAL\<close> comes back from the driver as a Python
    \<^verbatim>\<open>Decimal\<close>: a number of two decimals, or not a number.
  \<^item> An exception that no handler of the program catches ends the program: the function
    returns the store as it is and the traceback as its last message, and the menus stop.
    The store keeps what was committed, and the program can be started again.
  \<^item> \<^verbatim>\<open>Database.execute\<close> catches \<^verbatim>\<open>psycopg2.Error\<close>, prints it and returns \<^verbatim>\<open>None\<close>.
    The store refuses a statement that breaks a constraint or a column type of
    \<^verbatim>\<open>create_tables\<close>; whether the \<open>n\<close>-th call of an operation fails for a reason outside
    the program (the connection, say) is a parameter, a list of booleans with \<open>True\<close> for a
    call that fails; calls beyond the list do not fail.
  \<^item> Every function returns the store it leaves and the messages it prints through
    \<^verbatim>\<open>print_error\<close>, \<^verbatim>\<open>print_success\<close> and \<^verbatim>\<open>print_warning\<close>, in order, and with
    them the rate that \<^verbatim>\<open>apply_for_loan\<close> prints at line 217.
  \<^item> The column \<^verbatim>\<open>created_at\<close> and the screens that only read (\<^verbatim>\<open>view_loans\<close>,
    \<^verbatim>\<open>manage_users\<close>) are left out. A name is a list of characters, one element each.
  \<^item> \<^verbatim>\<open>bcrypt\<close> is symbolic: a hash is the pair of the password and the salt it was made from.
\<close>

subsection \<open>Python values\<close>

datatype pyfloat = Finite rat | PosInf | NegInf | NaN

datatype decimal = Dec rat | DecNaN

datatype exn = TypeError | InvalidOperation | OverflowError | ZeroDivisionError

text \<open>\<^verbatim>\<open>x <= 0\<close> on a float: false for \<^verbatim>\<open>nan\<close>.\<close>

fun float_le_zero :: "pyfloat \<Rightarrow> bool" where
  "float_le_zero (Finite x) = (x \<le> 0)"
| "float_le_zero PosInf = False"
| "float_le_zero NegInf = True"
| "float_le_zero NaN = False"

text \<open>\<^verbatim>\<open>x > y\<close> for a float \<open>x\<close> and a \<^verbatim>\<open>Decimal\<close> \<open>y\<close>: the float is converted exactly,
  and an ordering that involves a \<^verbatim>\<open>nan\<close> raises \<^verbatim>\<open>decimal.InvalidOperation\<close>.\<close>

fun float_gt_decimal :: "pyfloat \<Rightarrow> decimal \<Rightarrow> exn + bool" where
  "float_gt_decimal NaN y = Inl InvalidOperation"
| "float_gt_decimal x DecNaN = Inl InvalidOperation"
| "float_gt_decimal (Finite x) (Dec y) = Inr (y < x)"
| "float_gt_decimal PosInf (Dec y) = Inr True"
| "float_gt_decimal NegInf (Dec y) = Inr False"

text \<open>\<^verbatim>\<open>y - x\<close> for a \<^verbatim>\<open>Decimal\<close> \<open>y\<close> and a float \<open>x\<close>: \<^verbatim>\<open>Decimal.__sub__\<close> and
  \<^verbatim>\<open>float.__rsub__\<close> both decline, and Python raises \<^verbatim>\<open>TypeError\<close>.\<close>

fun decimal_sub_float :: "decimal \<Rightarrow> pyfloat \<Rightarrow> exn + decimal" where
  "decimal_sub_float y x = Inl TypeError"

text \<open>\<^verbatim>\<open>a / b\<close> on integers: the quotient as a float, and \<^verbatim>\<open>OverflowError\<close> when it rounds
  to a float beyond the largest one, that is from \<open>2 ^ 1024 - 2 ^ 970\<close> on (the number is
  written out so that it need not be computed each time).\<close>

definition float_overflow :: rat where
  "float_overflow =
     179769313486231580793728971405303415079934132710037826936173778980444968292764750946649017977587207096330286416692887910946555547851940402630657488671505820681908902000708383676273854845817711531764475730270069855571366959622842914819860834936475292719074168444365510704342711559699508093042880177904174497792"

definition int_true_div :: "int \<Rightarrow> int \<Rightarrow> exn + pyfloat" where
  "int_true_div a b =
     (if b = 0 then Inl ZeroDivisionError
      else if float_overflow \<le> \<bar>of_int a / of_int b :: rat\<bar> then Inl OverflowError
      else Inr (Finite (of_int a / of_int b)))"

fun float_add :: "pyfloat \<Rightarrow> pyfloat \<Rightarrow> pyfloat" where
  "float_add (Finite x) (Finite y) = Finite (x + y)"
| "float_add NaN y = NaN"
| "float_add x NaN = NaN"
| "float_add PosInf NegInf = NaN"
| "float_add NegInf PosInf = NaN"
| "float_add PosInf y = PosInf"
| "float_add NegInf y = NegInf"
| "float_add x PosInf = PosInf"
| "float_add x NegInf = NegInf"

fun float_lt :: "pyfloat \<Rightarrow> pyfloat \<Rightarrow> bool" where
  "float_lt NaN y = False"
| "float_lt x NaN = False"
| "float_lt (Finite x) (Finite y) = (x < y)"
| "float_lt NegInf NegInf = False"
| "float_lt NegInf y = True"
| "float_lt x NegInf = False"
| "float_lt PosInf y = False"
| "float_lt x PosInf = True"

text \<open>\<^verbatim>\<open>min(x, y)\<close>: the second argument only when it is smaller.\<close>

definition float_min :: "pyfloat \<Rightarrow> pyfloat \<Rightarrow> pyfloat" where
  "float_min x y = (if float_lt y x then y else x)"

subsection \<open>Tables\<close>

datatype pwhash = Bcrypt string string

fun hashpw :: "string \<Rightarrow> string \<Rightarrow> pwhash" where
  "hashpw password salt = Bcrypt password salt"

fun checkpw :: "string \<Rightarrow> pwhash \<Rightarrow> bool" where
  "checkpw password (Bcrypt p salt) = (password = p)"

datatype status = Pending | Approved | Rejected | Paid

record user_row =
  u_id :: int
  u_username :: string
  u_password_hash :: pwhash
  u_is_admin :: bool

record loan =
  l_id :: int
  l_user_id :: int
  l_amount :: decimal
  l_term :: int
  l_interest_rate :: decimal
  l_status :: status
  l_balance :: decimal

record payment =
  p_id :: int
  p_loan_id :: int
  p_amount :: decimal

text \<open>The store: the rows of each table in insertion order, and the next value of each
  \<^verbatim>\<open>SERIAL\<close> key.\<close>

record db =
  users :: "user_row list"
  loans :: "loan list"
  payments :: "payment list"
  next_user_id :: int
  next_loan_id :: int
  next_payment_id :: int

datatype message =
    DatabaseError
  | UsernameAlreadyExists
  | PasswordsDontMatch
  | RegistrationSuccessful
  | InvalidCredentials
  | Welcome string
  | AmountAndTermMustBePositive
  | CalculatedInterestRate pyfloat
  | LoanApplicationSubmitted
  | InvalidInputEnterNumbers
  | NoApprovedLoans
  | InvalidLoanID
  | AmountMustBePositive
  | PaymentExceedsLoanBalance
  | PaymentSuccessful
  | NoPendingLoans
  | LoanApproved
  | LoanRejected
  | InvalidAction
  | InvalidInput
  | InvalidChoice
  | Traceback exn

record session =
  s_id :: int
  s_username :: string
  s_is_admin :: bool

subsection \<open>Column types\<close>

text \<open>A value written to a column \<^verbatim>\<open>DECIMAL(p, 2)\<close> is rounded to two decimals, halves
  away from zero, and refused when it then needs more than \<open>p\<close> digits or is infinite;
  \<^verbatim>\<open>NaN\<close> is kept. A column \<^verbatim>\<open>INTEGER\<close> holds 32 bits, \<^verbatim>\<open>VARCHAR(50)\<close> 50 characters.\<close>

definition round_half_away :: "rat \<Rightarrow> int" where
  "round_half_away x = (if 0 \<le> x then \<lfloor>x + 1 / 2\<rfloor> else - \<lfloor>- x + 1 / 2\<rfloor>)"

definition round2 :: "rat \<Rightarrow> rat" where
  "round2 x = of_int (round_half_away (x * 100)) / 100"

definition numeric_of_rat :: "nat \<Rightarrow> rat \<Rightarrow> decimal option" where
  "numeric_of_rat p x =
     (if \<bar>round_half_away (x * 100)\<bar> < 10 ^ p then Some (Dec (round2 x)) else None)"

fun numeric_of_float :: "nat \<Rightarrow> pyfloat \<Rightarrow> decimal option" where
  "numeric_of_float p (Finite x) = numeric_of_rat p x"
| "numeric_of_float p NaN = Some DecNaN"
| "numeric_of_float p PosInf = None"
| "numeric_of_float p NegInf = None"

fun numeric_of_decimal :: "nat \<Rightarrow> decimal \<Rightarrow> decimal option" where
  "numeric_of_decimal p (Dec x) = numeric_of_rat p x"
| "numeric_of_decimal p DecNaN = Some DecNaN"

definition in_integer :: "int \<Rightarrow> bool" where
  "in_integer n = (- (2 ^ 31) \<le> n \<and> n < 2 ^ 31)"

subsection \<open>Statements\<close>

text \<open>A statement that changes the store returns \<open>None\<close> where the store refuses it: a
  value that does not fit its column, a second row with a \<^verbatim>\<open>UNIQUE\<close> username, a reference
  to a row that is not there.\<close>

definition insert_user :: "string \<Rightarrow> pwhash \<Rightarrow> bool \<Rightarrow> db \<Rightarrow> db option" where
  "insert_user username password_hash is_admin d =
     (if 50 < length username then None
      else if username \<in> set (map u_username (users d)) then None
      else Some (d\<lparr>users := users d @
                    [\<lparr>u_id = next_user_id d, u_username = username,
                      u_password_hash = password_hash, u_is_admin = is_admin\<rparr>],
                  next_user_id := next_user_id d + 1\<rparr>))"

definition insert_loan :: "int \<Rightarrow> pyfloat \<Rightarrow> int \<Rightarrow> pyfloat \<Rightarrow> pyfloat \<Rightarrow> db \<Rightarrow> db option" where
  "insert_loan user_id amount term interest_rate balance d =
     (if user_id \<notin> set (map u_id (users d)) \<or> \<not> in_integer term then None
      else (case numeric_of_float 10 amount of None \<Rightarrow> None | Some a \<Rightarrow>
           (case numeric_of_float 5 interest_rate of None \<Rightarrow> None | Some r \<Rightarrow>
           (case numeric_of_float 10 balance of None \<Rightarrow> None | Some b \<Rightarrow>
             Some (d\<lparr>loans := loans d @
                      [\<lparr>l_id = next_loan_id d, l_user_id = user_id, l_amount = a,
                        l_term = term, l_interest_rate = r, l_status = Pending,
                        l_balance = b\<rparr>],
                    next_loan_id := next_loan_id d + 1\<rparr>)))))"

definition insert_payment :: "int \<Rightarrow> pyfloat \<Rightarrow> db \<Rightarrow> db option" where
  "insert_payment loan_id amount d =
     (if loan_id \<notin> set (map l_id (loans d)) then None
      else (case numeric_of_float 10 amount of None \<Rightarrow> None | Some a \<Rightarrow>
             Some (d\<lparr>payments := payments d @
                      [\<lparr>p_id = next_payment_id d, p_loan_id = loan_id, p_amount = a\<rparr>],
                    next_payment_id := next_payment_id d + 1\<rparr>)))"

definition update_loan_balance :: "decimal \<Rightarrow> int \<Rightarrow> db \<Rightarrow> db option" where
  "update_loan_balance new_balance loan_id d =
     (case numeric_of_decimal 10 new_balance of None \<Rightarrow> None | Some b \<Rightarrow>
        Some (d\<lparr>loans := map (\<lambda>l. if l_id l = loan_id then l\<lparr>l_balance := b\<rparr> else l)
                             (loans d)\<rparr>))"

definition update_loan_status :: "status \<Rightarrow> int \<Rightarrow> db \<Rightarrow> db option" where
  "update_loan_status st loan_id d =
     Some (d\<lparr>loans := map (\<lambda>l. if l_id l = loan_id then l\<lparr>l_status := st\<rparr> else l)
                          (loans d)\<rparr>)"

definition select_user_by_name :: "db \<Rightarrow> string \<Rightarrow> user_row list" where
  "select_user_by_name d username = filter (\<lambda>u. u_username u = username) (users d)"

definition select_approved_loans :: "db \<Rightarrow> int \<Rightarrow> loan list" where
  "select_approved_loans d user_id =
     filter (\<lambda>l. l_user_id l = user_id \<and> l_status l = Approved) (loans d)"

definition select_pending_loans :: "db \<Rightarrow> loan list" where
  "select_pending_loans d =
     filter (\<lambda>l. l_status l = Pending \<and> l_user_id l \<in> set (map u_id (users d))) (loans d)"

subsection \<open>\<^verbatim>\<open>Database.execute\<close>\<close>

definition fault :: "bool list \<Rightarrow> nat \<Rightarrow> bool" where
  "fault fs n = (n < length fs \<and> fs ! n)"

definition execute :: "bool \<Rightarrow> (db \<Rightarrow> db option) \<Rightarrow> db \<Rightarrow> db \<times> message list" where
  "execute raises stmt d =
     (if raises then (d, [DatabaseError])
      else case stmt d of None \<Rightarrow> (d, [DatabaseError]) | Some d' \<Rightarrow> (d', []))"

definition execute_fetch :: "bool \<Rightarrow> 'a list \<Rightarrow> 'a list option \<times> message list" where
  "execute_fetch raises rows = (if raises then (None, [DatabaseError]) else (Some rows, []))"

definition empty_db :: db where
  "empty_db = \<lparr>users = [], loans = [], payments = [],
               next_user_id = 1, next_loan_id = 1, next_payment_id = 1\<rparr>"

definition create_tables :: "string \<Rightarrow> db \<Rightarrow> db" where
  "create_tables salt d =
     (if select_user_by_name d ''admin'' = []
      then (case insert_user ''admin'' (hashpw ''admin123'' salt) True d of
              None \<Rightarrow> d | Some d' \<Rightarrow> d')
      else d)"

subsection \<open>Registration and login\<close>

definition register :: "bool list \<Rightarrow> db \<Rightarrow> string \<Rightarrow> string \<Rightarrow> string \<Rightarrow> string
    \<Rightarrow> db \<times> message list" where
  "register fs d username password confirm salt =
     (let (found, m0) = execute_fetch (fault fs 0) (select_user_by_name d username)
      in if found \<noteq> None \<and> found \<noteq> Some [] then (d, m0 @ [UsernameAlreadyExists])
         else if password \<noteq> confirm then (d, m0 @ [PasswordsDontMatch])
         else let password_hash = hashpw password salt;
                  (d1, m1) = execute (fault fs 1) (insert_user username password_hash False) d
              in (d1, m0 @ m1 @ [RegistrationSuccessful]))"

definition login :: "bool list \<Rightarrow> db \<Rightarrow> string \<Rightarrow> string \<Rightarrow> session option \<times> message list" where
  "login fs d username password =
     (let (found, m0) = execute_fetch (fault fs 0) (select_user_by_name d username)
      in case found of
           None \<Rightarrow> (None, m0 @ [InvalidCredentials])
         | Some [] \<Rightarrow> (None, m0 @ [InvalidCredentials])
         | Some (u # rest) \<Rightarrow>
             if \<not> checkpw password (u_password_hash u) then (None, m0 @ [InvalidCredentials])
             else (Some \<lparr>s_id = u_id u, s_username = username, s_is_admin = u_is_admin u\<rparr>,
                   m0 @ [Welcome username]))"

subsection \<open>Applying for a loan\<close>

text \<open>Line 216: \<^verbatim>\<open>interest_rate = min(5.0 + (term / 12), 15.0)\<close>.\<close>

definition interest_rate :: "int \<Rightarrow> exn + pyfloat" where
  "interest_rate term =
     (case int_true_div term 12 of
        Inl e \<Rightarrow> Inl e
      | Inr q \<Rightarrow> Inr (float_min (float_add (Finite 5) q) (Finite 15)))"

text \<open>The format \<^verbatim>\<open>.2f\<close> of line 217 on a finite value, as the number of hundredths nearest
  to it.\<close>

definition two_decimals :: "rat \<Rightarrow> int" where
  "two_decimals x = round (x * 100)"

definition apply_for_loan :: "bool list \<Rightarrow> db \<Rightarrow> session \<Rightarrow> pyfloat option \<Rightarrow> int option
    \<Rightarrow> db \<times> message list" where
  "apply_for_loan fs d user amount_in term_in =
     (case amount_in of
        None \<Rightarrow> (d, [InvalidInputEnterNumbers])
      | Some amount \<Rightarrow>
     (case term_in of
        None \<Rightarrow> (d, [InvalidInputEnterNumbers])
      | Some term \<Rightarrow>
          if float_le_zero amount \<or> term \<le> 0 then (d, [AmountAndTermMustBePositive])
          else (case interest_rate term of
                 Inl e \<Rightarrow> (d, [Traceback e])
               | Inr rate \<Rightarrow>
                   (let (d1, m1) = execute (fault fs 0)
                                     (insert_loan (s_id user) amount term rate amount) d
                    in (d1, [CalculatedInterestRate rate] @ m1
                            @ [LoanApplicationSubmitted])))))"

subsection \<open>Making a payment\<close>

definition make_payment :: "bool list \<Rightarrow> db \<Rightarrow> session \<Rightarrow> int option \<Rightarrow> pyfloat option
    \<Rightarrow> db \<times> message list" where
  "make_payment fs d user loan_id_in amount_in =
     (let (fetched, m0) = execute_fetch (fault fs 0) (select_approved_loans d (s_id user))
      in case fetched of
           None \<Rightarrow> (d, m0 @ [NoApprovedLoans])
         | Some approved_loans \<Rightarrow>
     (if approved_loans = [] then (d, m0 @ [NoApprovedLoans])
      else case loan_id_in of
        None \<Rightarrow> (d, [InvalidInputEnterNumbers])
      | Some loan_id \<Rightarrow>
     (case amount_in of
        None \<Rightarrow> (d, [InvalidInputEnterNumbers])
      | Some amount \<Rightarrow>
     (case find (\<lambda>loan. l_id loan = loan_id) approved_loans of
        None \<Rightarrow> (d, [InvalidLoanID])
      | Some selected_loan \<Rightarrow>
          if float_le_zero amount then (d, [AmountMustBePositive])
          else (case float_gt_decimal amount (l_balance selected_loan) of
                 Inl e \<Rightarrow> (d, [Traceback e])
               | Inr exceeds \<Rightarrow>
          if exceeds then (d, [PaymentExceedsLoanBalance])
          else (case decimal_sub_float (l_balance selected_loan) amount of
             Inl e \<Rightarrow> (d, [Traceback e])
           | Inr new_balance \<Rightarrow>
               (let (d1, m1) = execute (fault fs 1) (update_loan_balance new_balance loan_id) d;
                    (d2, m2) = execute (fault fs 2) (insert_payment loan_id amount) d1;
                    (d3, m3) = (if new_balance = Dec 0
                                then execute (fault fs 3) (update_loan_status Paid loan_id) d2
                                else (d2, []))
                in (d3, m1 @ m2 @ m3 @ [PaymentSuccessful]))))))))"

subsection \<open>Reviewing loans\<close>

text \<open>\<^verbatim>\<open>str.lower\<close> on the letters A to Z; the comparison with \<^verbatim>\<open>'a'\<close> and \<^verbatim>\<open>'r'\<close>
  of lines 340 and 343 depends on no other character.\<close>

definition lower_char :: "char \<Rightarrow> char" where
  "lower_char c =
     (let n = (of_char c :: nat) in if 65 \<le> n \<and> n \<le> 90 then char_of (n + 32) else c)"

definition lower :: "string \<Rightarrow> string" where
  "lower s = map lower_char s"

definition review_pending_loans :: "bool list \<Rightarrow> db \<Rightarrow> int option \<Rightarrow> string
    \<Rightarrow> db \<times> message list" where
  "review_pending_loans fs d loan_id_in action_in =
     (let (fetched, m0) = execute_fetch (fault fs 0) (select_pending_loans d)
      in case fetched of
           None \<Rightarrow> (d, m0 @ [NoPendingLoans])
         | Some pending_loans \<Rightarrow>
     (if pending_loans = [] then (d, m0 @ [NoPendingLoans])
      else case loan_id_in of
        None \<Rightarrow> (d, [InvalidInput])
      | Some loan_id \<Rightarrow>
          let action = lower action_in
          in if action = ''a''
             then let (d1, m1) = execute (fault fs 1) (update_loan_status Approved loan_id) d
                  in (d1, m1 @ [LoanApproved])
             else if action = ''r''
             then let (d1, m1) = execute (fault fs 1) (update_loan_status Rejected loan_id) d
                  in (d1, m1 @ [LoanRejected])
             else (d, [InvalidAction])))"

subsection \<open>The menus\<close>

datatype choice =
    ApplyForLoan "pyfloat option" "int option"
  | MakePayment "int option" "pyfloat option"
  | ReviewPendingLoans "int option" string
  | OtherChoice

text \<open>One round of the loop of \<^verbatim>\<open>show_user_menu\<close>, before \<^verbatim>\<open>Logout\<close>.\<close>

definition menu_choice :: "db \<Rightarrow> session \<Rightarrow> bool list \<times> choice \<Rightarrow> db \<times> message list" where
  "menu_choice d user c =
     (case snd c of
        ApplyForLoan amount_in term_in \<Rightarrow> apply_for_loan (fst c) d user amount_in term_in
      | MakePayment loan_id_in amount_in \<Rightarrow> make_payment (fst c) d user loan_id_in amount_in
      | ReviewPendingLoans loan_id_in action_in \<Rightarrow>
          if s_is_admin user then review_pending_loans (fst c) d loan_id_in action_in
          else (d, [InvalidChoice])
      | OtherChoice \<Rightarrow> (d, [InvalidChoice]))"

fun is_traceback :: "message \<Rightarrow> bool" where
  "is_traceback (Traceback e) = True"
| "is_traceback m = False"

definition crashed :: "message list \<Rightarrow> bool" where
  "crashed ms = list_ex is_traceback ms"

text \<open>The loops return the store and whether the program has ended with a traceback.\<close>

fun show_user_menu :: "db \<Rightarrow> session \<Rightarrow> (bool list \<times> choice) list \<Rightarrow> db \<times> bool" where
  "show_user_menu d user [] = (d, False)"
| "show_user_menu d user (c # cs) =
     (if crashed (snd (menu_choice d user c)) then (fst (menu_choice d user c), True)
      else show_user_menu (fst (menu_choice d user c)) user cs)"

datatype event =
    Register "bool list" string string string string
  | Login "bool list" string string "(bool list \<times> choice) list"

definition main_choice :: "db \<Rightarrow> event \<Rightarrow> db \<times> bool" where
  "main_choice d e =
     (case e of
        Register fs username password confirm salt \<Rightarrow>
          (fst (register fs d username password confirm salt), False)
      | Login fs username password cs \<Rightarrow>
          (case fst (login fs d username password) of
             None \<Rightarrow> (d, False)
           | Some user \<Rightarrow> show_user_menu d user cs))"

fun main_loop :: "db \<Rightarrow> event list \<Rightarrow> db" where
  "main_loop d [] = d"
| "main_loop d (e # es) =
     (if snd (main_choice d e) then fst (main_choice d e)
      else main_loop (fst (main_choice d e)) es)"

text \<open>\<^verbatim>\<open>main\<close>: \<^verbatim>\<open>Database()\<close> runs \<^verbatim>\<open>create_tables\<close>, with a fresh salt for the seed
  account, and the menu follows. The program is started any number of times on the store.\<close>

definition main :: "string \<Rightarrow> db \<Rightarrow> event list \<Rightarrow> db" where
  "main salt d es = main_loop (create_tables salt d) es"

fun restarts :: "db \<Rightarrow> (string \<times> event list) list \<Rightarrow> db" where
  "restarts d [] = d"
| "restarts d (r # rs) = restarts (main (fst r) d (snd r)) rs"

subsection \<open>Example runs\<close>

text \<open>The store after the first start of the program; a customer registers; she applies
  for 1000 over 12 months and the administrator approves the loan; she applies a second
  time, for 50 over 6 months, and that loan stays pending.\<close>

definition initial_db :: db where
  "initial_db = create_tables ''salt0'' empty_db"

definition alice :: session where
  "alice = \<lparr>s_id = 2, s_username = ''alice'', s_is_admin = False\<rparr>"

definition admin :: session where
  "admin = \<lparr>s_id = 1, s_username = ''admin'', s_is_admin = True\<rparr>"

definition registered_db :: db where
  "registered_db = main_loop initial_db [Register [] ''alice'' ''secret'' ''secret'' ''salt1'']"

definition approved_run :: "event list" where
  "approved_run =
     [Register [] ''alice'' ''secret'' ''secret'' ''salt1'',
      Login [] ''alice'' ''secret'' [([], ApplyForLoan (Some (Finite 1000)) (Some 12))],
      Login [] ''admin'' ''admin123'' [([], ReviewPendingLoans (Some 1) ''A'')]]"

definition approved_db :: db where
  "approved_db = main_loop initial_db approved_run"

definition second_application_db :: db where
  "second_application_db =
     main_loop approved_db
       [Login [] ''alice'' ''secret'' [([], ApplyForLoan (Some (Finite 50)) (Some 6))]]"

text \<open>The administrator then rejects the second loan.\<close>

definition rejected_db :: db where
  "rejected_db =
     main_loop second_application_db
       [Login [] ''admin'' ''admin123'' [([], ReviewPendingLoans (Some 2) ''r'')]]"

text \<open>A store in which the first loan is paid. No run of the program leads to it.\<close>

definition paid_db :: db where
  "paid_db = approved_db\<lparr>loans := map (\<lambda>l. l\<lparr>l_status := Paid, l_balance := Dec 0\<rparr>)
                                        (loans approved_db)\<rparr>"

text \<open>The program is started; the customer registers, applies, is approved and pays 400,
  which ends the program; it is started again and she pays 400 once more.\<close>

definition two_attempts :: "(string \<times> event list) list" where
  "two_attempts =
     [(''salt0'', approved_run @
         [Login [] ''alice'' ''secret'' [([], MakePayment (Some 1) (Some (Finite 400)))]]),
      (''salt2'',
         [Login [] ''alice'' ''secret'' [([], MakePayment (Some 1) (Some (Finite 400)))]])]"

subsection \<open>What holds along every run\<close>

text \<open>The ledger is empty, every balance is the amount of its loan, and no loan is paid.\<close>

definition untouched :: "db \<Rightarrow> bool" where
  "untouched d =
     (payments d = []
      \<and> (\<forall>l \<in> set (loans d). l_balance l = l_amount l \<and> l_status l \<noteq> Paid))"

text \<open>The sum of the ledger rows of one loan and the difference of two columns, as
  \<^verbatim>\<open>Decimal\<close> computes them: \<^verbatim>\<open>NaN\<close> spreads.\<close>

fun decimal_add :: "decimal \<Rightarrow> decimal \<Rightarrow> decimal" where
  "decimal_add (Dec x) (Dec y) = Dec (x + y)"
| "decimal_add x y = DecNaN"

fun decimal_sub :: "decimal \<Rightarrow> decimal \<Rightarrow> decimal" where
  "decimal_sub (Dec x) (Dec y) = Dec (x - y)"
| "decimal_sub x y = DecNaN"

definition paid_total :: "payment list \<Rightarrow> int \<Rightarrow> decimal" where
  "paid_total ps loan_id =
     foldr decimal_add (map p_amount (filter (\<lambda>p. p_loan_id p = loan_id) ps)) (Dec 0)"

text \<open>A customer registers and applies for less than half a cent; or for \<^verbatim>\<open>nan\<close>.\<close>

definition tiny_loan_run :: "(string \<times> event list) list" where
  "tiny_loan_run =
     [(''salt0'',
       [Register [] ''alice'' ''secret'' ''secret'' ''salt1'',
        Login [] ''alice'' ''secret''
          [([], ApplyForLoan (Some (Finite (1 / 1024))) (Some 12))]])]"

definition nan_loan_run :: "(string \<times> event list) list" where
  "nan_loan_run =
     [(''salt0'',
       [Register [] ''alice'' ''secret'' ''secret'' ''salt1'',
        Login [] ''alice'' ''secret'' [([], ApplyForLoan (Some NaN) (Some 12))]])]"


section \<open>Payments\<close>

lemma find_select_approved:
  "find (\<lambda>loan. l_id loan = loan_id) (select_approved_loans d uid) = Some sel \<Longrightarrow>
     sel \<in> set (loans d) \<and> l_id sel = loan_id \<and> l_user_id sel = uid \<and> l_status sel = Approved"
  by (auto simp: find_Some_iff select_approved_loans_def dest: nth_mem)

lemma find_select_approved_None:
  "find (\<lambda>loan. l_id loan = loan_id) (select_approved_loans d uid) = None \<longleftrightarrow>
     (\<forall>l \<in> set (loans d). l_id l = loan_id \<longrightarrow> l_user_id l = uid \<longrightarrow> l_status l \<noteq> Approved)"
  by (auto simp: find_None_iff select_approved_loans_def)

text \<open>No call of \<^verbatim>\<open>make_payment\<close> changes the store or prints the success message: the
  statements after line 294 are never reached.\<close>

lemma make_payment_unchanged: "fst (make_payment fs d user loan_id_in amount_in) = d"
  by (simp add: make_payment_def execute_fetch_def Let_def
        split: option.splits sum.splits)

lemma make_payment_never_successful:
  "PaymentSuccessful \<notin> set (snd (make_payment fs d user loan_id_in amount_in))"
  by (simp add: make_payment_def execute_fetch_def Let_def
        split: option.splits sum.splits)

lemma make_payment_not_found:
  assumes "find (\<lambda>loan. l_id loan = loan_id) (select_approved_loans d (s_id user)) = None"
  shows "last (snd (make_payment fs d user (Some loan_id) (Some amount)))
           \<in> {NoApprovedLoans, InvalidLoanID}"
  using assms by (simp add: make_payment_def execute_fetch_def)

text \<open>Every payment that passes validation ends the program with \<^verbatim>\<open>TypeError\<close>.\<close>

lemma make_payment_validated:
  assumes "\<not> fault fs 0"
    and "find (\<lambda>loan. l_id loan = loan_id) (select_approved_loans d (s_id user)) = Some sel"
    and "l_balance sel = Dec b" "0 < a" "a \<le> b"
  shows "make_payment fs d user (Some loan_id) (Some (Finite a)) = (d, [Traceback TypeError])"
proof -
  from assms(2) have "select_approved_loans d (s_id user) \<noteq> []" by auto
  with assms show ?thesis
    by (simp add: make_payment_def execute_fetch_def)
qed

text \<open>
  C1. A payment that passes validation (the loan is among the caller's approved loans and
  \<open>0 < amount \<le> balance\<close>) is to lower the balance by the amount, to append one payment row
  and, at balance zero, to mark the loan paid. The program does none of this. Line 294
  subtracts the float that was read from the \<^verbatim>\<open>Decimal\<close> balance, Python raises
  \<^verbatim>\<open>TypeError\<close>, no handler catches it, and the program ends before the first
  \<^verbatim>\<open>UPDATE\<close>. Here the customer pays 400 on her approved loan of 1000: the result is the
  traceback, and the store is as it was.
\<close>

theorem make_payment_raises_TypeError:
  "make_payment [] approved_db alice (Some 1) (Some (Finite 400))
     = (approved_db, [Traceback TypeError])
   \<and> map l_balance (loans approved_db) = [Dec 1000]
   \<and> map l_status (loans approved_db) = [Approved]
   \<and> payments approved_db = []
   \<and> fst (login [] approved_db ''alice'' ''secret'') = Some alice"
  by code_simp



subsection \<open>Runs\<close>

lemma register_frame:
  "loans (fst (register fs d username password confirm salt)) = loans d"
  "payments (fst (register fs d username password confirm salt)) = payments d"
  by (auto simp: register_def execute_fetch_def execute_def insert_user_def Let_def
        split: prod.splits option.splits)

lemma untouched_register:
  "untouched d \<Longrightarrow> untouched (fst (register fs d username password confirm salt))"
  by (simp add: untouched_def register_frame)

lemma create_tables_frame:
  "loans (create_tables salt d) = loans d" "payments (create_tables salt d) = payments d"
  by (auto simp: create_tables_def insert_user_def split: option.splits)

lemma untouched_create_tables: "untouched d \<Longrightarrow> untouched (create_tables salt d)"
  by (simp add: untouched_def create_tables_frame)

lemma apply_for_loan_cases:
  obtains (unchanged) "fst (apply_for_loan fs d user amount_in term_in) = d"
  | (inserted) x r months where
      "fst (apply_for_loan fs d user amount_in term_in) =
          d\<lparr>loans := loans d @
              [\<lparr>l_id = next_loan_id d, l_user_id = s_id user, l_amount = x,
                l_term = months, l_interest_rate = r, l_status = Pending, l_balance = x\<rparr>],
            next_loan_id := next_loan_id d + 1\<rparr>"
proof (cases "fst (apply_for_loan fs d user amount_in term_in) = d")
  case True
  then show ?thesis by (rule unchanged)
next
  case False
  then obtain amount months rate where i: "amount_in = Some amount" "term_in = Some months"
    and r: "interest_rate months = Inr rate" and p: "\<not> float_le_zero amount" "0 < months"
    by (cases amount_in; cases term_in; cases "interest_rate (the term_in)")
       (auto simp: apply_for_loan_def split: if_splits)
  with False obtain d' where
    e: "insert_loan (s_id user) amount months rate amount d = Some d'" and f: "\<not> fault fs 0"
    by (cases "insert_loan (s_id user) amount months rate amount d")
       (auto simp: apply_for_loan_def execute_def split: if_splits)
  from e obtain x y where "d' = d\<lparr>loans := loans d @
              [\<lparr>l_id = next_loan_id d, l_user_id = s_id user, l_amount = x,
                l_term = months, l_interest_rate = y, l_status = Pending, l_balance = x\<rparr>],
            next_loan_id := next_loan_id d + 1\<rparr>"
    by (auto simp: insert_loan_def split: if_splits option.splits)
  with i r p e f show ?thesis
    by (intro inserted[of x months y]) (simp add: apply_for_loan_def execute_def)
qed

lemma untouched_apply:
  assumes "untouched d"
  shows "untouched (fst (apply_for_loan fs d user amount_in term_in))"
proof (cases rule: apply_for_loan_cases[of fs d user amount_in term_in])
  case unchanged
  with assms show ?thesis by simp
next
  case (inserted x r months)
  from assms show ?thesis
    unfolding inserted untouched_def by auto
qed

lemma review_pending_loans_cases:
  obtains (unchanged) "fst (review_pending_loans fs d loan_id_in action_in) = d"
  | (decided) loan_id st where
      "fst (review_pending_loans fs d loan_id_in action_in) =
         d\<lparr>loans := map (\<lambda>l. if l_id l = loan_id then l\<lparr>l_status := st\<rparr> else l) (loans d)\<rparr>"
      "st = Approved \<or> st = Rejected" "loan_id_in = Some loan_id"
proof (cases "fault fs 0 \<or> select_pending_loans d = [] \<or> loan_id_in = None \<or> fault fs 1
               \<or> (lower action_in \<noteq> ''a'' \<and> lower action_in \<noteq> ''r'')")
  case True
  then have "fst (review_pending_loans fs d loan_id_in action_in) = d"
    by (cases loan_id_in)
       (auto simp: review_pending_loans_def execute_fetch_def execute_def Let_def)
  then show ?thesis by (rule unchanged)
next
  case False
  then obtain loan_id where i: "loan_id_in = Some loan_id" by auto
  from False i show ?thesis
    by (cases "lower action_in = ''a''")
       (auto simp: review_pending_loans_def execute_fetch_def execute_def Let_def
          update_loan_status_def intro: decided[of loan_id Approved] decided[of loan_id Rejected])
qed

lemma untouched_review:
  assumes "untouched d"
  shows "untouched (fst (review_pending_loans fs d loan_id_in action_in))"
proof (cases rule: review_pending_loans_cases[of fs d loan_id_in action_in])
  case unchanged
  with assms show ?thesis by simp
next
  case (decided loan_id st)
  from assms decided(2) show ?thesis
    unfolding decided(1) untouched_def by auto
qed

lemma untouched_menu_choice:
  "untouched d \<Longrightarrow> untouched (fst (menu_choice d user c))"
  by (cases "snd c")
     (simp_all add: menu_choice_def untouched_apply untouched_review make_payment_unchanged)

lemma untouched_show_user_menu:
  "untouched d \<Longrightarrow> untouched (fst (show_user_menu d user cs))"
  by (induction cs arbitrary: d) (simp_all add: untouched_menu_choice)

lemma untouched_main_choice:
  assumes "untouched d"
  shows "untouched (fst (main_choice d e))"
proof (cases e)
  case (Register fs username password confirm salt)
  with assms show ?thesis by (simp add: main_choice_def untouched_register)
next
  case (Login fs username password cs)
  with assms show ?thesis
    by (cases "fst (login fs d username password)")
       (simp_all add: main_choice_def untouched_show_user_menu)
qed

lemma untouched_main_loop: "untouched d \<Longrightarrow> untouched (main_loop d es)"
  by (induction es arbitrary: d) (simp_all add: untouched_main_choice)

lemma untouched_restarts: "untouched d \<Longrightarrow> untouched (restarts d runs)"
  by (induction runs arbitrary: d)
     (simp_all add: main_def untouched_main_loop untouched_create_tables)

lemma untouched_empty_db: "untouched empty_db"
  by (simp add: untouched_def empty_db_def)

text \<open>
  C7. A payment row is only ever created against a loan that is approved at the moment of
  the payment. (1) In any store, if no row with the given loan id is approved (the loan is
  pending, rejected or paid, or is not there), the attempt ends with one of the program's
  not-found messages and the store is unchanged. (2) No attempt, whatever its input, changes
  the ledger: an attempt that is not rejected ends at line 290 or 294 with a traceback
  before any statement is sent. (3) Hence in every store that runs of the program reach
  from the empty store, however often it is started, the ledger is empty and no loan is
  paid; no execution has a payment that brings a balance to zero.
\<close>

theorem payment_only_on_approved_loan:
  "((\<forall>l \<in> set (loans d). l_id l = loan_id \<longrightarrow> l_status l \<noteq> Approved) \<longrightarrow>
      fst (make_payment fs d user (Some loan_id) (Some amount)) = d
      \<and> last (snd (make_payment fs d user (Some loan_id) (Some amount)))
           \<in> {NoApprovedLoans, InvalidLoanID})
   \<and> payments (fst (make_payment fs d user loan_id_in amount_in)) = payments d
   \<and> payments (restarts empty_db runs) = []
   \<and> (\<forall>l \<in> set (loans (restarts empty_db runs)). l_status l \<noteq> Paid)"
proof (intro conjI impI)
  assume "\<forall>l \<in> set (loans d). l_id l = loan_id \<longrightarrow> l_status l \<noteq> Approved"
  then have n: "find (\<lambda>loan. l_id loan = loan_id) (select_approved_loans d (s_id user)) = None"
    unfolding find_select_approved_None by blast
  then show "last (snd (make_payment fs d user (Some loan_id) (Some amount)))
           \<in> {NoApprovedLoans, InvalidLoanID}"
    by (rule make_payment_not_found)
  show "fst (make_payment fs d user (Some loan_id) (Some amount)) = d"
    by (rule make_payment_unchanged)
next
  show "payments (fst (make_payment fs d user loan_id_in amount_in)) = payments d"
    by (simp add: make_payment_unchanged)
next
  from untouched_restarts[OF untouched_empty_db, of runs]
  show "payments (restarts empty_db runs) = []"
    and "\<forall>l \<in> set (loans (restarts empty_db runs)). l_status l \<noteq> Paid"
    by (simp_all add: untouched_def)
qed

theorem payment_only_on_approved_loan_witness:
  "map l_status (loans rejected_db) = [Approved, Rejected]
   \<and> make_payment [] second_application_db alice (Some 2) (Some (Finite 10))
       = (second_application_db, [InvalidLoanID])
   \<and> make_payment [] rejected_db alice (Some 2) (Some (Finite 10))
       = (rejected_db, [InvalidLoanID])
   \<and> map l_status (loans paid_db) = [Paid]
   \<and> make_payment [] paid_db alice (Some 1) (Some (Finite 10)) = (paid_db, [NoApprovedLoans])
   \<and> payments (restarts empty_db two_attempts) = []
   \<and> map l_status (loans (restarts empty_db two_attempts)) = [Approved]
   \<and> map l_balance (loans (restarts empty_db two_attempts)) = [Dec 1000]"
proof -
  have p: "\<forall>l \<in> set (loans second_application_db). l_id l = 2 \<longrightarrow> l_status l \<noteq> Approved"
    "\<forall>l \<in> set (loans rejected_db). l_id l = 2 \<longrightarrow> l_status l \<noteq> Approved"
    "\<forall>l \<in> set (loans paid_db). l_id l = 1 \<longrightarrow> l_status l \<noteq> Approved"
    by code_simp+
  have v: "map l_status (loans rejected_db) = [Approved, Rejected]"
    "snd (make_payment [] second_application_db alice (Some 2) (Some (Finite 10)))
       = [InvalidLoanID]"
    "snd (make_payment [] rejected_db alice (Some 2) (Some (Finite 10))) = [InvalidLoanID]"
    "map l_status (loans paid_db) = [Paid]"
    "snd (make_payment [] paid_db alice (Some 1) (Some (Finite 10))) = [NoApprovedLoans]"
    "map l_status (loans (restarts empty_db two_attempts)) = [Approved]"
    "map l_balance (loans (restarts empty_db two_attempts)) = [Dec 1000]"
    by code_simp+
  note t1 = payment_only_on_approved_loan[where d=second_application_db and loan_id=2
      and fs="[]" and user=alice and amount="Finite 10", THEN conjunct1, THEN mp, OF p(1)]
  note t2 = payment_only_on_approved_loan[where d=rejected_db and loan_id=2
      and fs="[]" and user=alice and amount="Finite 10", THEN conjunct1, THEN mp, OF p(2)]
  note t3 = payment_only_on_approved_loan[where d=paid_db and loan_id=1
      and fs="[]" and user=alice and amount="Finite 10", THEN conjunct1, THEN mp, OF p(3)]
  note t4 = payment_only_on_approved_loan[where runs=two_attempts,
      THEN conjunct2, THEN conjunct2, THEN conjunct1]
  from t1 v(2) have 1: "make_payment [] second_application_db alice (Some 2) (Some (Finite 10))
       = (second_application_db, [InvalidLoanID])"
    by (simp add: prod_eq_iff)
  from t2 v(3) have 2: "make_payment [] rejected_db alice (Some 2) (Some (Finite 10))
       = (rejected_db, [InvalidLoanID])"
    by (simp add: prod_eq_iff)
  from t3 v(5) have 3: "make_payment [] paid_db alice (Some 1) (Some (Finite 10))
       = (paid_db, [NoApprovedLoans])"
    by (simp add: prod_eq_iff)
  from 1 2 3 t4 v show ?thesis by blast
qed

section \<open>Loan applications\<close>

lemma float_overflow_power: "float_overflow = 2 ^ 1024 - 2 ^ 970"
  by (simp add: float_overflow_def)

lemma interest_rate_value:
  assumes "0 < t" "of_int t / 12 < float_overflow"
  shows "interest_rate t = Inr (Finite (min (5 + of_int t / 12) 15))"
proof -
  from assms have "int_true_div t 12 = Inr (Finite (of_int t / 12))"
    by (simp add: int_true_div_def not_le)
  then show ?thesis
    by (simp add: interest_rate_def float_min_def min_def)
qed






lemma rate_two_decimals:
  assumes "0 < t"
  shows "\<bar>of_int (two_decimals (min (5 + of_int t / 12) 15)) / 100
           - min (5 + of_int t / 12) (15::rat)\<bar> < 1 / 200"
proof -
  let ?r = "min (5 + of_int t / 12) (15::rat)"
  define k :: int where "k = (if t < 120 then 1500 + 25 * t else 4500)"
  have x: "?r * 100 = of_int k / 3"
    by (simp add: k_def min_def field_simps)
  let ?n = "round (of_int k / (3::rat))"
  have le: "\<bar>of_int ?n - of_int k / (3::rat)\<bar> \<le> 1 / 2"
    by (rule of_int_round_abs_le)
  have ne: "\<bar>of_int ?n - of_int k / (3::rat)\<bar> \<noteq> 1 / 2"
  proof
    assume "\<bar>of_int ?n - of_int k / (3::rat)\<bar> = 1 / 2"
    then have "\<bar>(of_int (6 * ?n - 2 * k) :: rat)\<bar> = of_int 3"
      by (simp add: abs_if field_simps split: if_splits)
    then have "\<bar>6 * ?n - 2 * k\<bar> = 3"
      by (metis of_int_abs of_int_eq_iff)
    then show False by presburger
  qed
  from le ne have "\<bar>of_int ?n - of_int k / (3::rat)\<bar> < 1 / 2" by simp
  then have "\<bar>of_int (two_decimals ?r) - ?r * 100\<bar> < 1 / 2"
    by (simp only: two_decimals_def x)
  then show ?thesis by (simp add: abs_if field_simps split: if_splits)
qed

text \<open>
  C5 (as amended). For every term \<open>t > 0\<close> whose twelfth is below the largest float, the
  rate computed at line 216 is \<open>min (5 + t / 12) 15\<close>; it lies above 5 and is at most 15, and
  it depends on the term alone. Printed with two decimals it is the one number of
  hundredths nearer than half a hundredth to it (no rate is a tie), and it is what
  \<^verbatim>\<open>apply_for_loan\<close> prints first for every amount that passes the check of line 212,
  whatever the store, the user and the amount.
\<close>

theorem interest_rate_formula:
  "0 < t \<and> of_int t / 12 < float_overflow \<longrightarrow>
     interest_rate t = Inr (Finite (min (5 + of_int t / 12) 15))
     \<and> 5 < min (5 + of_int t / 12) (15::rat) \<and> min (5 + of_int t / 12) (15::rat) \<le> 15
     \<and> \<bar>of_int (two_decimals (min (5 + of_int t / 12) 15)) / 100
           - min (5 + of_int t / 12) (15::rat)\<bar> < 1 / 200
     \<and> (\<not> float_le_zero amount \<longrightarrow>
          hd (snd (apply_for_loan fs d user (Some amount) (Some t)))
            = CalculatedInterestRate (Finite (min (5 + of_int t / 12) 15)))"
proof (intro impI conjI)
  assume h: "0 < t \<and> of_int t / 12 < float_overflow"
  then show r: "interest_rate t = Inr (Finite (min (5 + of_int t / 12) 15))"
    by (simp add: interest_rate_value)
  from h show "5 < min (5 + of_int t / 12) (15::rat)" by simp
  show "min (5 + of_int t / 12) (15::rat) \<le> 15" by simp
  from h have "0 < t" by simp
  then show "\<bar>of_int (two_decimals (min (5 + of_int t / 12) 15)) / 100
           - min (5 + of_int t / 12) (15::rat)\<bar> < 1 / 200"
    by (rule rate_two_decimals)
  assume "\<not> float_le_zero amount"
  with h r show "hd (snd (apply_for_loan fs d user (Some amount) (Some t)))
            = CalculatedInterestRate (Finite (min (5 + of_int t / 12) 15))"
    by (simp add: apply_for_loan_def split_def Let_def)
qed

text \<open>12 months give 6.00, 120 months 15.00, and one month 5.08.\<close>

theorem interest_rate_formula_witness:
  "interest_rate 12 = Inr (Finite 6) \<and> interest_rate 120 = Inr (Finite 15)
   \<and> interest_rate 1 = Inr (Finite (61 / 12))
   \<and> two_decimals 6 = 600 \<and> two_decimals 15 = 1500 \<and> two_decimals (61 / 12) = 508
   \<and> hd (snd (apply_for_loan [] registered_db alice (Some (Finite 1000)) (Some 12)))
       = CalculatedInterestRate (Finite 6)"
proof -
  have b: "of_int 12 / 12 < float_overflow" "of_int 120 / 12 < float_overflow"
    "of_int 1 / 12 < float_overflow"
    by (simp_all add: float_overflow_def)
  have e: "two_decimals 6 = 600" "two_decimals 15 = 1500" "two_decimals (61 / 12) = 508"
    by code_simp+
  from interest_rate_formula[of 12 "Finite 1000" "[]" registered_db alice]
       interest_rate_formula[of 120 "Finite 1000" "[]" registered_db alice]
       interest_rate_formula[of 1 "Finite 1000" "[]" registered_db alice] b e
  show ?thesis by simp
qed

text \<open>
  C5 as stated fails at \<open>t = 0\<close>: \<^verbatim>\<open>apply_for_loan\<close> returns at line 214 and computes no
  rate. It also fails for a term of 311 digits: there line 216 raises \<^verbatim>\<open>OverflowError\<close>
  and the program ends.
\<close>

theorem no_rate_counterexample:
  "apply_for_loan [] registered_db alice (Some (Finite 1000)) (Some 0)
     = (registered_db, [AmountAndTermMustBePositive])
   \<and> apply_for_loan [] registered_db alice (Some (Finite 1000)) (Some (10 ^ 310))
     = (registered_db, [Traceback OverflowError])"
  by (simp add: apply_for_loan_def interest_rate_def int_true_div_def float_overflow_def)




section \<open>What the store comes to hold\<close>

text \<open>
  C3. In every store the program reaches, a loan is to have balance zero if and only if it
  is paid. The program reaches a store where this fails: an amount below half a cent is
  positive and passes the check of line 212, and the columns \<^verbatim>\<open>amount\<close> and \<^verbatim>\<open>balance\<close>
  keep it as 0.00. The loan is pending and its balance is zero.
\<close>

theorem tiny_loan_pending_with_balance_zero:
  "loans (restarts empty_db tiny_loan_run)
     = [\<lparr>l_id = 1, l_user_id = 2, l_amount = Dec 0, l_term = 12, l_interest_rate = Dec 6,
         l_status = Pending, l_balance = Dec 0\<rparr>]"
  by code_simp

text \<open>
  C4. For every loan the payment rows of the loan are to add up to its amount less its
  balance. The program reaches a store where they do not: \<^verbatim>\<open>float\<close> accepts \<^verbatim>\<open>nan\<close>,
  \<^verbatim>\<open>nan <= 0\<close> is false, and the loan is stored with amount and balance \<^verbatim>\<open>NaN\<close>. Its
  ledger adds up to 0 and its amount less its balance is \<^verbatim>\<open>NaN\<close>.
\<close>

theorem nan_loan_breaks_ledger_equation:
  "loans (restarts empty_db nan_loan_run)
     = [\<lparr>l_id = 1, l_user_id = 2, l_amount = DecNaN, l_term = 12, l_interest_rate = Dec 6,
         l_status = Pending, l_balance = DecNaN\<rparr>]
   \<and> paid_total (payments (restarts empty_db nan_loan_run)) 1 = Dec 0
   \<and> map (\<lambda>l. decimal_sub (l_amount l) (l_balance l)) (loans (restarts empty_db nan_loan_run))
       = [DecNaN]"
  by code_simp

section \<open>Review by the administrator\<close>

text \<open>
  C8 (as amended). When at least one loan is pending and neither call of
  \<^verbatim>\<open>Database.execute\<close> fails, an answer that lower-cases to \<^verbatim>\<open>a\<close> sets the status of
  every row with the entered id to approved and an answer that lower-cases to \<^verbatim>\<open>r\<close> sets
  it to rejected, whatever the status was; nothing else in the store changes. When no loan
  is pending the store is unchanged. In every case the balances, the ids, the payments and
  the users are as before.
\<close>

theorem review_pending_loans_decision:
  "(select_pending_loans d \<noteq> [] \<and> \<not> fault fs 0 \<and> \<not> fault fs 1 \<longrightarrow>
      (lower action_in = ''a'' \<longrightarrow>
         review_pending_loans fs d (Some loan_id) action_in =
           (d\<lparr>loans := map (\<lambda>l. if l_id l = loan_id then l\<lparr>l_status := Approved\<rparr> else l)
                           (loans d)\<rparr>, [LoanApproved]))
      \<and> (lower action_in = ''r'' \<longrightarrow>
         review_pending_loans fs d (Some loan_id) action_in =
           (d\<lparr>loans := map (\<lambda>l. if l_id l = loan_id then l\<lparr>l_status := Rejected\<rparr> else l)
                           (loans d)\<rparr>, [LoanRejected])))
   \<and> (select_pending_loans d = [] \<longrightarrow>
        fst (review_pending_loans fs d loan_id_in action_in) = d)
   \<and> map l_balance (loans (fst (review_pending_loans fs d loan_id_in action_in)))
        = map l_balance (loans d)
   \<and> map l_id (loans (fst (review_pending_loans fs d loan_id_in action_in)))
        = map l_id (loans d)
   \<and> payments (fst (review_pending_loans fs d loan_id_in action_in)) = payments d
   \<and> users (fst (review_pending_loans fs d loan_id_in action_in)) = users d"
  by (auto simp: review_pending_loans_def execute_fetch_def execute_def update_loan_status_def
        Let_def o_def split: option.splits)

text \<open>With loan 1 approved and loan 2 pending, rejecting loan 1 and approving loan 2 both
  take effect; with no pending loan nothing happens.\<close>

theorem review_pending_loans_decision_witness:
  "map l_status (loans second_application_db) = [Approved, Pending]
   \<and> map l_status (loans (fst (review_pending_loans [] second_application_db (Some 1) ''R'')))
       = [Rejected, Pending]
   \<and> map l_status (loans (fst (review_pending_loans [] second_application_db (Some 2) ''a'')))
       = [Approved, Approved]
   \<and> map l_balance (loans (fst (review_pending_loans [] second_application_db (Some 1) ''R'')))
       = [Dec 1000, Dec 50]
   \<and> fst (review_pending_loans [] approved_db (Some 1) ''r'') = approved_db"
proof -
  have f: "\<not> fault [] 0" "\<not> fault [] 1" by (simp_all add: fault_def)
  have p: "select_pending_loans second_application_db \<noteq> []"
    "select_pending_loans approved_db = []"
    "lower ''R'' = ''r''" "lower ''a'' = ''a''"
    by code_simp+
  have v: "map l_status (loans second_application_db) = [Approved, Pending]"
    "map l_balance (loans second_application_db) = [Dec 1000, Dec 50]"
    "map l_status (map (\<lambda>l. if l_id l = 1 then l\<lparr>l_status := Rejected\<rparr> else l)
        (loans second_application_db)) = [Rejected, Pending]"
    "map l_status (map (\<lambda>l. if l_id l = 2 then l\<lparr>l_status := Approved\<rparr> else l)
        (loans second_application_db)) = [Approved, Approved]"
    by code_simp+
  note t1 = review_pending_loans_decision[where d=second_application_db and fs="[]"
         and action_in="''R''" and loan_id=1 and loan_id_in="Some 1"]
  note t2 = review_pending_loans_decision[where d=second_application_db and fs="[]"
         and action_in="''a''" and loan_id=2 and loan_id_in="Some 2"]
  note t3 = review_pending_loans_decision[where d=approved_db and fs="[]"
         and action_in="''r''" and loan_id=1 and loan_id_in="Some 1"]
  from t1 f p have e1: "review_pending_loans [] second_application_db (Some 1) ''R'' =
      (second_application_db\<lparr>loans := map (\<lambda>l. if l_id l = 1 then l\<lparr>l_status := Rejected\<rparr>
          else l) (loans second_application_db)\<rparr>, [LoanRejected])"
    by simp
  from t2 f p have e2: "review_pending_loans [] second_application_db (Some 2) ''a'' =
      (second_application_db\<lparr>loans := map (\<lambda>l. if l_id l = 2 then l\<lparr>l_status := Approved\<rparr>
          else l) (loans second_application_db)\<rparr>, [LoanApproved])"
    by simp
  from t1 v have e3: "map l_balance
      (loans (fst (review_pending_loans [] second_application_db (Some 1) ''R'')))
        = [Dec 1000, Dec 50]"
    by simp
  from t3 p have e4: "fst (review_pending_loans [] approved_db (Some 1) ''r'') = approved_db"
    by simp
  from e1 e2 v have e5:
    "map l_status (loans (fst (review_pending_loans [] second_application_db (Some 1) ''R'')))
       = [Rejected, Pending]"
    "map l_status (loans (fst (review_pending_loans [] second_application_db (Some 2) ''a'')))
       = [Approved, Approved]"
    by simp_all
  from v(1) e5 e3 e4 show ?thesis by blast
qed

text \<open>
  C8 as stated fails when no loan is pending: \<^verbatim>\<open>review_pending_loans\<close> returns at line 328
  before it asks for a loan id. In the store of the example run the only loan is approved;
  the administrator's decision to reject it leaves it approved.
\<close>

theorem review_without_pending_counterexample:
  "map l_id (loans approved_db) = [1] \<and> map l_status (loans approved_db) = [Approved]
   \<and> review_pending_loans [] approved_db (Some 1) ''r'' = (approved_db, [NoPendingLoans])
   \<and> fst (login [] approved_db ''admin'' ''admin123'') = Some admin"
  by code_simp

section \<open>Registration\<close>





text \<open>
  C10. If the two password entries differ, registration stores nothing and never prints the
  success message; under a fresh username the last message is \<^verbatim>\<open>Passwords don't match!\<close>,
  and under an existing one (the lookup not failing) the uniqueness check has already ended
  the attempt with \<^verbatim>\<open>Username already exists!\<close>.
\<close>

theorem register_password_mismatch:
  "password \<noteq> confirm \<longrightarrow>
     fst (register fs d username password confirm salt) = d
     \<and> RegistrationSuccessful \<notin> set (snd (register fs d username password confirm salt))
     \<and> (username \<notin> set (map u_username (users d)) \<longrightarrow>
          last (snd (register fs d username password confirm salt)) = PasswordsDontMatch)
     \<and> (username \<in> set (map u_username (users d)) \<and> \<not> fault fs 0 \<longrightarrow>
          snd (register fs d username password confirm salt) = [UsernameAlreadyExists])"
  by (auto simp: register_def execute_fetch_def Let_def select_user_by_name_def
        filter_empty_conv)

theorem register_password_mismatch_witness:
  "register [] initial_db ''bob'' ''hunter2'' ''hunter3'' ''salt2''
     = (initial_db, [PasswordsDontMatch])
   \<and> register [] initial_db ''admin'' ''hunter2'' ''hunter3'' ''salt2''
     = (initial_db, [UsernameAlreadyExists])"
proof -
  have f: "\<not> fault [] 0" by (simp add: fault_def)
  have u: "''bob'' \<notin> set (map u_username (users initial_db))"
    "''admin'' \<in> set (map u_username (users initial_db))"
    "''hunter2'' \<noteq> ''hunter3''"
    "snd (register [] initial_db ''bob'' ''hunter2'' ''hunter3'' ''salt2'') = [PasswordsDontMatch]"
    by code_simp+
  from register_password_mismatch[of "''hunter2''" "''hunter3''" "[]" initial_db "''bob''"
         "''salt2''"]
       register_password_mismatch[of "''hunter2''" "''hunter3''" "[]" initial_db "''admin''"
         "''salt2''"] f u
  show ?thesis by (simp add: prod_eq_iff)
qed

end
